theory Spec2Isabelle
  imports Complex_Main
begin

section \<open>Python values the pipeline handles\<close>

text \<open>
  A raised exception is a value: its class name and its message. The repository raises
  \<open>ValueError\<close> itself; \<open>KeyError\<close> comes from indexing a DataFrame by a column it does
  not have; anything else is raised inside scipy, statsmodels or numpy and only passes
  through.
\<close>

datatype exn = Exception string string

fun exn_class :: "exn \<Rightarrow> string" where
  "exn_class (Exception c m) = c"

definition ValueError :: "string \<Rightarrow> exn" where
  "ValueError m = Exception ''ValueError'' m"

definition KeyError :: "string \<Rightarrow> exn" where
  "KeyError k = Exception ''KeyError'' k"

text \<open>
  A Python float is a real number, one of the two infinities, or NaN. Ordering
  comparisons with NaN are all false, as IEEE 754 and Python have it.
\<close>

datatype pyfloat = Fin real | PInf | NInf | NaN

fun pf_lt :: "pyfloat \<Rightarrow> pyfloat \<Rightarrow> bool" where
  "pf_lt (Fin a) (Fin b) = (a < b)"
| "pf_lt (Fin a) PInf = True"
| "pf_lt NInf (Fin b) = True"
| "pf_lt NInf PInf = True"
| "pf_lt x y = False"

definition pf_gt :: "pyfloat \<Rightarrow> pyfloat \<Rightarrow> bool" where
  "pf_gt x y = pf_lt y x"

text \<open>
  The float that the literal \<open>0.05\<close> denotes: the double nearest to one twentieth, a
  little above it.
\<close>

definition literal_0_05 :: pyfloat where
  "literal_0_05 = Fin (3602879701896397 / 2 ^ 56)"

text \<open>
  A DataFrame cell is a number or a string; a missing entry is the number NaN. A
  DataFrame is its columns, by name, in order.
\<close>

datatype cell = Num pyfloat | Str string

definition isna :: "cell \<Rightarrow> bool" where
  "isna c = (c = Num NaN)"

text \<open>Elementwise \<open>==\<close> of pandas: NaN equals nothing, itself included.\<close>

definition cell_eq :: "cell \<Rightarrow> cell \<Rightarrow> bool" where
  "cell_eq a b = (a = b \<and> a \<noteq> Num NaN)"

type_synonym frame = "(string \<times> cell list) list"

text \<open>\<open>df[col]\<close>: the column, or KeyError.\<close>

definition getitem :: "frame \<Rightarrow> string \<Rightarrow> exn + cell list" where
  "getitem df col = (case map_of df col of None \<Rightarrow> Inl (KeyError col) | Some c \<Rightarrow> Inr c)"

text \<open>
  \<open>Series.unique()\<close>: the distinct entries in order of first appearance; all NaN
  entries count as one entry. \<open>Series.nunique()\<close>: the number of distinct entries that
  are not missing. \<open>Series.dropna()\<close> on a column of cells.
\<close>

definition unique :: "cell list \<Rightarrow> cell list" where
  "unique xs = foldl (\<lambda>seen x. if x \<in> set seen then seen else seen @ [x]) [] xs"

definition nunique :: "cell list \<Rightarrow> nat" where
  "nunique xs = length (unique (filter (\<lambda>c. \<not> isna c) xs))"

definition dropna_cells :: "cell list \<Rightarrow> cell list" where
  "dropna_cells xs = filter (\<lambda>c. \<not> isna c) xs"

text \<open>\<open>df[df[g] == lab][v]\<close>: the entries of column v on the rows whose g entry equals lab.\<close>

definition rows_where :: "cell list \<Rightarrow> cell \<Rightarrow> cell list \<Rightarrow> cell list" where
  "rows_where gcol lab vcol = map snd (filter (\<lambda>r. cell_eq (fst r) lab) (zip gcol vcol))"

section \<open>method_selector.py: MethodSelector\<close>

text \<open>
  The selector holds whatever data object it was given: a DataFrame, or something else
  (a Series or an array, for one-dimensional checks).
\<close>

datatype pydata = DataFrame frame | NotFrame "pyfloat list"

record MethodSelector =
  sel_data :: pydata
  group_col :: "string option"
  id_col :: "string option"
  paired :: bool

record homogeneity_result =
  Levene_p :: "pyfloat option"
  Homogeneity :: "bool option"

definition null_verdict :: homogeneity_result where
  "null_verdict = \<lparr>Levene_p = None, Homogeneity = None\<rparr>"

text \<open>
  \<open>check_homogeneity\<close>. Levene's test is scipy's: it is the parameter \<open>levene\<close>, which
  returns the statistic and the p-value or raises.
\<close>

definition check_homogeneity ::
  "(cell list list \<Rightarrow> exn + pyfloat \<times> pyfloat) \<Rightarrow> MethodSelector \<Rightarrow> string
    \<Rightarrow> exn + homogeneity_result" where
  "check_homogeneity levene self value_col =
    (case sel_data self of
       NotFrame xs \<Rightarrow> Inr null_verdict
     | DataFrame df \<Rightarrow>
        (case group_col self of
           None \<Rightarrow> Inr null_verdict
         | Some g \<Rightarrow>
            (case getitem df g of
               Inl e \<Rightarrow> Inl e
             | Inr gcol \<Rightarrow>
                (let groups = unique gcol in
                 if length groups < 2 then Inr null_verdict
                 else
                   (case getitem df value_col of
                      Inl e \<Rightarrow> Inl e
                    | Inr vcol \<Rightarrow>
                       (case levene (map (\<lambda>lab. dropna_cells (rows_where gcol lab vcol)) groups) of
                          Inl e \<Rightarrow> Inl e
                        | Inr (stat, p) \<Rightarrow>
                            Inr \<lparr>Levene_p = Some p, Homogeneity = Some (pf_gt p literal_0_05)\<rparr>))))))"

text \<open>
  The group count of \<open>recommend_method\<close> (its lines 74 to 76): 1 unless the data is a
  DataFrame and \<open>group_col\<close> is truthy (neither None nor the empty string), and then the
  \<open>nunique()\<close> of that column.
\<close>

definition num_groups :: "MethodSelector \<Rightarrow> exn + nat" where
  "num_groups self =
    (case sel_data self of
       NotFrame xs \<Rightarrow> Inr 1
     | DataFrame df \<Rightarrow>
        (case group_col self of
           None \<Rightarrow> Inr 1
         | Some g \<Rightarrow>
            if g = [] then Inr 1
            else (case getitem df g of Inl e \<Rightarrow> Inl e | Inr gcol \<Rightarrow> Inr (nunique gcol))))"

text \<open>
  \<open>recommend_method\<close>: the pair (method, advice). Both start at their defaults,
  \<open>Unknown\<close> and \<open>No recommendation.\<close>, and each branch assigns what it assigns.
\<close>

definition recommend_method ::
  "MethodSelector \<Rightarrow> bool \<Rightarrow> bool option \<Rightarrow> exn + string \<times> string" where
  "recommend_method self normality_check homogeneity_check =
    (let advice = ''No recommendation.'';
         method = ''Unknown'';
         is_normal = normality_check;
         is_homogeneous = (case homogeneity_check of None \<Rightarrow> True | Some b \<Rightarrow> b)
     in
       if id_col self \<noteq> None then
         (let advice = ''Data has hierarchical structure (ID column detected).'' in
          if is_normal then
            Inr (''LMM'', advice @ '' Recommend Linear Mixed Model (LMM).'')
          else
            Inr (''GLMM_or_LMM'',
                 advice @ '' Data is non-normal. Recommend Generalized Linear Mixed Model (GLMM) or Transformation + LMM.''))
       else if paired self then
         (if is_normal then Inr (''Paired T-test'', ''Data is Normal and Paired.'')
          else Inr (''Wilcoxon Signed-Rank'', ''Data is Non-Normal and Paired.''))
       else
         (case num_groups self of
            Inl e \<Rightarrow> Inl e
          | Inr n \<Rightarrow>
             if n = 2 then
               (if is_normal \<and> is_homogeneous then
                  Inr (''Independent T-test'', ''Normality and Homogeneity assumptions met.'')
                else if is_normal \<and> \<not> is_homogeneous then
                  Inr (''Welch's T-test'', ''Normality met, but Variance is unequal.'')
                else Inr (''Mann-Whitney U'', ''Normality assumption violated.''))
             else if n > 2 then
               (if is_normal \<and> is_homogeneous then
                  Inr (''One-way ANOVA'', ''Normality and Homogeneity met.'')
                else if is_normal \<and> \<not> is_homogeneous then
                  Inr (''Welch ANOVA'', ''Normality met, Variance unequal.'')
                else Inr (''Kruskal-Wallis'', ''Normality violated.''))
             else
               (if is_normal then Inr (''One-sample T-test'', advice)
                else Inr (''One-sample Wilcoxon'', advice))))"

subsection \<open>Selectors of the test suite and of the examples below\<close>

text \<open>
  A two-group table in the shape of the pipeline test's Case A, a clustered table in the
  shape of its Case B, and a bare list.
\<close>

definition case_a_frame :: frame where
  "case_a_frame =
    [(''RT'', [Num (Fin 298), Num (Fin 305), Num (Fin 321), Num (Fin 317)]),
     (''Group'', [Str ''Control'', Str ''Control'', Str ''Treatment'', Str ''Treatment''])]"

definition case_a_selector :: MethodSelector where
  "case_a_selector =
    \<lparr>sel_data = DataFrame case_a_frame, group_col = Some ''Group'', id_col = None,
     paired = False\<rparr>"

definition case_b_frame :: frame where
  "case_b_frame =
    [(''SubjectID'', [Str ''S0'', Str ''S0'', Str ''S1'', Str ''S1'']),
     (''Condition'', [Str ''A'', Str ''B'', Str ''B'', Str ''A'']),
     (''Value'', [Num (Fin 11), Num (Fin 14), Num (Fin 9), Num (Fin 10)])]"

definition case_b_selector :: MethodSelector where
  "case_b_selector =
    \<lparr>sel_data = DataFrame case_b_frame, group_col = Some ''Condition'',
     id_col = Some ''SubjectID'', paired = True\<rparr>"

definition ungrouped_selector :: MethodSelector where
  "ungrouped_selector =
    \<lparr>sel_data = DataFrame case_a_frame, group_col = None, id_col = None, paired = False\<rparr>"

definition list_selector :: MethodSelector where
  "list_selector =
    \<lparr>sel_data = NotFrame [Fin 1, Fin 2, Fin 3], group_col = None, id_col = None,
     paired = False\<rparr>"

definition one_group_frame :: frame where
  "one_group_frame =
    [(''RT'', [Num (Fin 298), Num (Fin 305)]), (''Group'', [Str ''Control'', Str ''Control''])]"

definition one_group_selector :: MethodSelector where
  "one_group_selector =
    \<lparr>sel_data = DataFrame one_group_frame, group_col = Some ''Group'', id_col = None,
     paired = False\<rparr>"

text \<open>
  A table whose group column has one label, A, and two missing entries.
\<close>

definition missing_label_frame :: frame where
  "missing_label_frame =
    [(''RT'', [Num (Fin 1), Num (Fin 2), Num (Fin 3), Num (Fin 4)]),
     (''Group'', [Str ''A'', Num NaN, Str ''A'', Num NaN])]"

definition missing_label_selector :: MethodSelector where
  "missing_label_selector =
    \<lparr>sel_data = DataFrame missing_label_frame, group_col = Some ''Group'', id_col = None,
     paired = False\<rparr>"

text \<open>A Levene stand-in whose statistic and p-value are NaN when a sample is empty.\<close>

definition levene_nan_on_empty :: "cell list list \<Rightarrow> exn + pyfloat \<times> pyfloat" where
  "levene_nan_on_empty gs = (if [] \<in> set gs then Inr (NaN, NaN) else Inr (Fin 0.2, Fin 0.66))"

text \<open>A Levene stand-in for the examples that raises whenever it is called.\<close>

definition levene_raising :: "cell list list \<Rightarrow> exn + pyfloat \<times> pyfloat" where
  "levene_raising gs = Inl (ValueError ''Must enter at least two input sample vectors.'')"

section \<open>eda.py: EDA_Diagnosis\<close>

text \<open>
  A pandas Series of floats: its name and its entries in order. The constructor takes a
  Series, a numpy array or a list, and refuses anything else.
\<close>

record series =
  sname :: "string option"
  entries :: "pyfloat list"

datatype pyobject = Series series | Ndarray "pyfloat list" | PyList "pyfloat list" | OtherObject

text \<open>\<open>Series.dropna()\<close>: the entries that are not NaN, in their order, under the same name.\<close>

definition dropna :: "series \<Rightarrow> series" where
  "dropna s = s\<lparr>entries := filter (\<lambda>x. x \<noteq> NaN) (entries s)\<rparr>"

record EDA_Diagnosis =
  data :: series
  name :: string
  clean_data :: series

definition EDA_Diagnosis_init :: "pyobject \<Rightarrow> exn + EDA_Diagnosis" where
  "EDA_Diagnosis_init d =
    (case d of
       Series s \<Rightarrow>
         Inr \<lparr>data = s,
              name = (case sname s of None \<Rightarrow> ''Data'' | Some n \<Rightarrow> if n = [] then ''Data'' else n),
              clean_data = dropna s\<rparr>
     | Ndarray xs \<Rightarrow>
         (let s = \<lparr>sname = Some ''Data'', entries = xs\<rparr>
          in Inr \<lparr>data = s, name = ''Data'', clean_data = dropna s\<rparr>)
     | PyList xs \<Rightarrow>
         (let s = \<lparr>sname = Some ''Data'', entries = xs\<rparr>
          in Inr \<lparr>data = s, name = ''Data'', clean_data = dropna s\<rparr>)
     | OtherObject \<Rightarrow> Inl (ValueError ''Input must be a pandas Series, numpy array, or list.''))"

text \<open>The entries of the object handed to the constructor.\<close>

fun input_entries :: "pyobject \<Rightarrow> pyfloat list" where
  "input_entries (Series s) = entries s"
| "input_entries (Ndarray xs) = xs"
| "input_entries (PyList xs) = xs"
| "input_entries OtherObject = []"

text \<open>
  The numeric routines are those of pandas, numpy, scipy and statsmodels, not of this
  repository: they are parameters, collected in a record. Float arithmetic (with its
  rounding) is numpy's too; the comparisons of floats are exact and are \<open>pf_lt\<close> and
  \<open>pf_gt\<close>. The routines that can raise return a sum.
\<close>

record library =
  series_mean :: "pyfloat list \<Rightarrow> pyfloat"
  series_std :: "pyfloat list \<Rightarrow> pyfloat"
  series_skew :: "pyfloat list \<Rightarrow> pyfloat"
  series_kurtosis :: "pyfloat list \<Rightarrow> pyfloat"
  series_min :: "pyfloat list \<Rightarrow> pyfloat"
  series_max :: "pyfloat list \<Rightarrow> pyfloat"
  series_quantile :: "pyfloat list \<Rightarrow> pyfloat \<Rightarrow> pyfloat"
  float_add :: "pyfloat \<Rightarrow> pyfloat \<Rightarrow> pyfloat"
  float_sub :: "pyfloat \<Rightarrow> pyfloat \<Rightarrow> pyfloat"
  float_mul :: "pyfloat \<Rightarrow> pyfloat \<Rightarrow> pyfloat"
  float_abs :: "pyfloat \<Rightarrow> pyfloat"
  zscore :: "pyfloat list \<Rightarrow> pyfloat list"
  gaussian_kde :: "pyfloat list \<Rightarrow> exn + (pyfloat list \<Rightarrow> pyfloat list)"
  linspace :: "pyfloat \<Rightarrow> pyfloat \<Rightarrow> nat \<Rightarrow> pyfloat list"
  find_peaks :: "pyfloat list \<Rightarrow> nat list"
  shapiro :: "pyfloat list \<Rightarrow> exn + pyfloat \<times> pyfloat"
  lilliefors :: "pyfloat list \<Rightarrow> exn + pyfloat \<times> pyfloat"
  jarque_bera :: "pyfloat list \<Rightarrow> exn + pyfloat \<times> pyfloat"

record stats_result =
  Mean :: pyfloat
  Std :: pyfloat
  Skewness :: pyfloat
  Kurtosis :: pyfloat
  Skew_Desc :: string
  Kurt_Desc :: string

definition descriptive_stats :: "library \<Rightarrow> EDA_Diagnosis \<Rightarrow> stats_result" where
  "descriptive_stats L self =
    (let mean_val = series_mean L (entries (clean_data self));
         std_val = series_std L (entries (clean_data self));
         skew_val = series_skew L (entries (clean_data self));
         kurt_val = series_kurtosis L (entries (clean_data self));
         skew_desc =
           (if pf_gt skew_val (Fin 1) then ''Highly Positively Skewed''
            else if pf_gt skew_val (Fin 0.5) then ''Moderately Positively Skewed''
            else if pf_lt skew_val (Fin (- 1)) then ''Highly Negatively Skewed''
            else if pf_lt skew_val (Fin (- 0.5)) then ''Moderately Negatively Skewed''
            else ''Symmetric'');
         kurt_desc =
           (if pf_gt kurt_val (Fin 1) then ''Leptokurtic (Heavy tails/Peaked)''
            else if pf_lt kurt_val (Fin (- 1)) then ''Platykurtic (Light tails/Flat)''
            else ''Mesokurtic (Normal-like)'')
     in \<lparr>Mean = mean_val, Std = std_val, Skewness = skew_val, Kurtosis = kurt_val,
         Skew_Desc = skew_desc, Kurt_Desc = kurt_desc\<rparr>)"

text \<open>\<open>check_outliers\<close>: the outliers, as the entries of the Series it returns.\<close>

definition check_outliers ::
  "library \<Rightarrow> EDA_Diagnosis \<Rightarrow> string \<Rightarrow> pyfloat \<Rightarrow> exn + pyfloat list" where
  "check_outliers L self method threshold =
    (if method = ''iqr'' then
       (let Q1 = series_quantile L (entries (clean_data self)) (Fin 0.25);
            Q3 = series_quantile L (entries (clean_data self)) (Fin 0.75);
            IQR = float_sub L Q3 Q1;
            lower_bound = float_sub L Q1 (float_mul L threshold IQR);
            upper_bound = float_add L Q3 (float_mul L threshold IQR)
        in Inr (filter (\<lambda>x. pf_lt x lower_bound \<or> pf_gt x upper_bound)
                  (entries (clean_data self))))
     else if method = ''zscore'' then
       (let z_scores = map (float_abs L) (zscore L (entries (clean_data self)))
        in Inr (map fst (filter (\<lambda>xz. pf_gt (snd xz) (Fin 3))
                           (zip (entries (clean_data self)) z_scores))))
     else Inl (ValueError (''Method must be 'iqr' or 'zscore'' @ [CHR 0x27])))"

text \<open>\<open>check_multimodality\<close>: the number of peaks and the description.\<close>

definition check_multimodality :: "library \<Rightarrow> EDA_Diagnosis \<Rightarrow> exn + nat \<times> string" where
  "check_multimodality L self =
    (case gaussian_kde L (entries (clean_data self)) of
       Inl e \<Rightarrow> Inl e
     | Inr kde \<Rightarrow>
        (let x_range = linspace L (series_min L (entries (clean_data self)))
                         (series_max L (entries (clean_data self))) 1000;
             kde_values = kde x_range;
             peaks = find_peaks L kde_values;
             num_peaks = length peaks;
             modality = (if num_peaks = 2 then ''Bimodal''
                         else if num_peaks > 2 then ''Multimodal''
                         else ''Unimodal'')
         in Inr (num_peaks, modality)))"

text \<open>An int in an f-string: its decimal digits.\<close>

fun format_int :: "nat \<Rightarrow> string" where
  "format_int n =
    (if n < 10 then [''0123456789'' ! n]
     else format_int (n div 10) @ [''0123456789'' ! (n mod 10)])"

record distribution_report =
  Shapiro_Wilk_p :: pyfloat
  Lilliefors_p :: pyfloat
  Jarque_Bera_p :: pyfloat
  Is_Normal_Assumption :: bool
  Modality :: string
  Num_Peaks :: nat
  Advice :: string

text \<open>
  \<open>check_distribution\<close>: the report, and the warnings issued on the way (one, for a
  sample of 5000 entries or more).
\<close>

definition check_distribution ::
  "library \<Rightarrow> EDA_Diagnosis \<Rightarrow> exn + distribution_report \<times> string list" where
  "check_distribution L self =
    (let n = length (entries (clean_data self)) in
     case shapiro L (entries (clean_data self)) of
       Inl e \<Rightarrow> Inl e
     | Inr (shapiro_stat, shapiro_p) \<Rightarrow>
     (let warnings =
            (if n < 5000 then []
             else [''Sample size > 5000, Shapiro-Wilk might be too sensitive.'']) in
      case lilliefors L (entries (clean_data self)) of
        Inl e \<Rightarrow> Inl e
      | Inr (ks_stat, ks_p) \<Rightarrow>
      (case jarque_bera L (entries (clean_data self)) of
         Inl e \<Rightarrow> Inl e
       | Inr (jb_stat, jb_p) \<Rightarrow>
       (case check_multimodality L self of
          Inl e \<Rightarrow> Inl e
        | Inr (num_peaks, modality) \<Rightarrow>
        (let is_normal = pf_gt shapiro_p literal_0_05;
             advice =
               (if \<not> is_normal then
                  ''Data is NOT Normal. '' @
                  (if modality \<noteq> ''Unimodal'' then
                     ''Data appears '' @ modality @ '' ('' @ format_int num_peaks @
                     '' peaks). Consider mixture models or splitting data. ''
                   else []) @
                  (if pf_gt (series_skew L (entries (clean_data self))) (Fin 1) then
                     (if pf_gt (series_min L (entries (clean_data self))) (Fin 0) then
                        ''Positive Skew: Consider Log or Box-Cox Transform.''
                      else
                        ''Positive Skew: Consider Square Root (if >=0) or Non-parametric tests.'')
                   else if pf_lt (series_skew L (entries (clean_data self))) (Fin (- 1)) then
                     ''Negative Skew: Consider Reflect & Log or Non-parametric tests.''
                   else ''Consider Non-parametric tests.'')
                else ''Data appears Normal. Proceed with Parametric Tests.'')
         in Inr (\<lparr>Shapiro_Wilk_p = shapiro_p, Lilliefors_p = ks_p, Jarque_Bera_p = jb_p,
                  Is_Normal_Assumption = is_normal, Modality = modality,
                  Num_Peaks = num_peaks, Advice = advice\<rparr>, warnings))))))"

subsection \<open>Samples and a library for the examples below\<close>

text \<open>\<open>numpy.isfinite\<close>: neither NaN nor an infinity.\<close>

fun isfinite :: "pyfloat \<Rightarrow> bool" where
  "isfinite (Fin a) = True"
| "isfinite x = False"

text \<open>The spec's degenerate sample: fewer than 2 distinct values.\<close>

definition degenerate :: "pyfloat list \<Rightarrow> bool" where
  "degenerate xs = (length (remdups xs) < 2)"

text \<open>
  Stand-ins for the library. The density estimator refuses a sample of fewer than two
  entries and one whose entries are all equal (its covariance matrix is singular), as
  scipy's does, with scipy's exception classes. The arithmetic is exact on finite floats.
\<close>

definition example_kde :: "pyfloat list \<Rightarrow> exn + (pyfloat list \<Rightarrow> pyfloat list)" where
  "example_kde xs =
    (if length xs < 2 then
       Inl (ValueError ''dataset input should have multiple elements.'')
     else if length (remdups xs) < 2 then
       Inl (Exception ''LinAlgError'' ''The data appears to lie in a lower-dimensional subspace.'')
     else Inr (map (\<lambda>x. Fin 1)))"

fun finite_op :: "(real \<Rightarrow> real \<Rightarrow> real) \<Rightarrow> pyfloat \<Rightarrow> pyfloat \<Rightarrow> pyfloat" where
  "finite_op f (Fin a) (Fin b) = Fin (f a b)"
| "finite_op f x y = NaN"

fun finite_abs :: "pyfloat \<Rightarrow> pyfloat" where
  "finite_abs (Fin a) = Fin \<bar>a\<bar>"
| "finite_abs NaN = NaN"
| "finite_abs x = PInf"

definition example_library :: "pyfloat \<Rightarrow> pyfloat \<Rightarrow> pyfloat \<Rightarrow> library" where
  "example_library skew kurt shapiro_p =
    \<lparr>series_mean = (\<lambda>xs. Fin 2), series_std = (\<lambda>xs. Fin 1),
     series_skew = (\<lambda>xs. skew), series_kurtosis = (\<lambda>xs. kurt),
     series_min = (\<lambda>xs. Fin 1), series_max = (\<lambda>xs. Fin 3),
     series_quantile = (\<lambda>xs q. Fin 2),
     float_add = finite_op (+), float_sub = finite_op (-), float_mul = finite_op (*),
     float_abs = finite_abs, zscore = map (\<lambda>x. Fin 0),
     gaussian_kde = example_kde,
     linspace = (\<lambda>a b n. [a, b]),
     find_peaks = (\<lambda>vs. [0, 1]),
     shapiro = (\<lambda>xs. Inr (Fin 0.9, shapiro_p)),
     lilliefors = (\<lambda>xs. Inr (Fin 0.1, Fin 0.3)),
     jarque_bera = (\<lambda>xs. Inr (Fin 1.5, Fin 0.4))\<rparr>"

definition constant_eda :: EDA_Diagnosis where
  "constant_eda =
    \<lparr>data = \<lparr>sname = Some ''Data'', entries = [Fin 5, NaN, Fin 5, Fin 5]\<rparr>, name = ''Data'',
     clean_data = \<lparr>sname = Some ''Data'', entries = [Fin 5, Fin 5, Fin 5]\<rparr>\<rparr>"

definition spread_eda :: EDA_Diagnosis where
  "spread_eda =
    \<lparr>data = \<lparr>sname = Some ''Data'', entries = [Fin 1, NaN, Fin 2, Fin 3]\<rparr>, name = ''Data'',
     clean_data = \<lparr>sname = Some ''Data'', entries = [Fin 1, Fin 2, Fin 3]\<rparr>\<rparr>"

definition infinite_eda :: EDA_Diagnosis where
  "infinite_eda =
    \<lparr>data = \<lparr>sname = Some ''Data'', entries = [Fin 1, PInf, NaN, NInf, Fin 2]\<rparr>,
     name = ''Data'',
     clean_data = \<lparr>sname = Some ''Data'', entries = [Fin 1, PInf, NInf, Fin 2]\<rparr>\<rparr>"

definition spread_eda_other :: EDA_Diagnosis where
  "spread_eda_other =
    \<lparr>data = \<lparr>sname = None, entries = [NaN, NaN, Fin 1, Fin 2, Fin 3]\<rparr>, name = ''RT'',
     clean_data = \<lparr>sname = Some ''Data'', entries = [Fin 1, Fin 2, Fin 3]\<rparr>\<rparr>"

text \<open>
  A sample of two entries, and a library whose skewness is NaN below three entries and
  whose kurtosis is NaN below four, as the pandas estimators are.
\<close>

definition pair_eda :: EDA_Diagnosis where
  "pair_eda =
    \<lparr>data = \<lparr>sname = Some ''Data'', entries = [Fin 1, Fin 2]\<rparr>, name = ''Data'',
     clean_data = \<lparr>sname = Some ''Data'', entries = [Fin 1, Fin 2]\<rparr>\<rparr>"

definition small_sample_library :: "pyfloat \<Rightarrow> pyfloat \<Rightarrow> pyfloat \<Rightarrow> library" where
  "small_sample_library skew kurt shapiro_p =
    (example_library skew kurt shapiro_p)
      \<lparr>series_skew := (\<lambda>xs. if length xs < 3 then NaN else skew),
       series_kurtosis := (\<lambda>xs. if length xs < 4 then NaN else kurt)\<rparr>"

section \<open>The test selector\<close>

lemma num_groups_case_a: "num_groups case_a_selector = Inr 2"
  by (simp add: num_groups_def case_a_selector_def case_a_frame_def getitem_def nunique_def
      unique_def isna_def)

text \<open>
  On a DataFrame with a group column of a nonempty name, the group count is the number
  of distinct labels of that column, missing labels left out.
\<close>

lemma num_groups_of_frame:
  assumes "sel_data self = DataFrame df" and "group_col self = Some g" and "g \<noteq> []"
    and "getitem df g = Inr gcol"
  shows "num_groups self = Inr (nunique gcol)"
  using assms by (simp add: num_groups_def)

text \<open>
  C1. With a subject identifier present, the hierarchical branch fires first: the method
  is LMM for a normal sample and GLMM_or_LMM otherwise, whatever the pairing flag, the
  homogeneity verdict and the data (so the group count) are.
\<close>

theorem hierarchical_branch_first:
  assumes "id_col self \<noteq> None"
  shows "\<exists>advice. recommend_method self is_normal h =
           Inr (if is_normal then ''LMM'' else ''GLMM_or_LMM'', advice)"
  using assms by (simp add: recommend_method_def)

theorem hierarchical_branch_first_witness:
  "id_col case_b_selector \<noteq> None \<and> paired case_b_selector \<and>
   (\<exists>advice. recommend_method case_b_selector True (Some False) = Inr (''LMM'', advice)) \<and>
   (\<exists>advice. recommend_method case_b_selector False None = Inr (''GLMM_or_LMM'', advice))"
proof -
  have i: "id_col case_b_selector \<noteq> None"
    by (simp add: case_b_selector_def)
  have p: "paired case_b_selector"
    by (simp add: case_b_selector_def)
  from hierarchical_branch_first [OF i, of True "Some False"]
       hierarchical_branch_first [OF i, of False None] i p
  show ?thesis by simp
qed

text \<open>
  C2. Without a subject identifier and without pairing, a null homogeneity verdict gives
  the very result (method and rationale, or the exception) that the verdict true gives.
\<close>

theorem null_homogeneity_is_true:
  assumes "id_col self = None" and "\<not> paired self"
  shows "recommend_method self is_normal None = recommend_method self is_normal (Some True)"
  by (simp add: recommend_method_def)

theorem null_homogeneity_is_true_witness:
  "id_col case_a_selector = None \<and> \<not> paired case_a_selector \<and>
   recommend_method case_a_selector True None =
     Inr (''Independent T-test'', ''Normality and Homogeneity assumptions met.'') \<and>
   recommend_method case_a_selector True (Some True) =
     Inr (''Independent T-test'', ''Normality and Homogeneity assumptions met.'')"
proof -
  have i: "id_col case_a_selector = None" and p: "\<not> paired case_a_selector"
    by (simp_all add: case_a_selector_def)
  have r: "recommend_method case_a_selector True (Some True) =
     Inr (''Independent T-test'', ''Normality and Homogeneity assumptions met.'')"
    by (simp add: recommend_method_def num_groups_case_a i p)
  from null_homogeneity_is_true [OF i p, of True] r i p show ?thesis by simp
qed

text \<open>
  C4. No subject identifier, no pairing, a group count of exactly 2 and a sample that is
  not normal: the method is Mann-Whitney U for each of the three homogeneity verdicts.
\<close>

theorem two_groups_non_normal:
  assumes "id_col self = None" and "\<not> paired self" and "num_groups self = Inr 2"
  shows "recommend_method self False h =
           Inr (''Mann-Whitney U'', ''Normality assumption violated.'')"
  using assms by (simp add: recommend_method_def)

theorem two_groups_non_normal_witness:
  "id_col case_a_selector = None \<and> \<not> paired case_a_selector \<and>
   num_groups case_a_selector = Inr 2 \<and>
   recommend_method case_a_selector False (Some False) =
     Inr (''Mann-Whitney U'', ''Normality assumption violated.'') \<and>
   recommend_method case_a_selector False None =
     Inr (''Mann-Whitney U'', ''Normality assumption violated.'')"
proof -
  have i: "id_col case_a_selector = None" and p: "\<not> paired case_a_selector"
    by (simp_all add: case_a_selector_def)
  note n = num_groups_case_a
  from two_groups_non_normal [OF i p n, of "Some False"]
       two_groups_non_normal [OF i p n, of None] i p n
  show ?thesis by simp
qed


text \<open>
  C10. No subject identifier, no pairing, and either data that is not a DataFrame or no
  group column: the group count is taken to be 1, and the method is the one-sample
  T-test for a normal sample and the one-sample Wilcoxon otherwise, whatever the
  homogeneity argument is and whatever columns the data has.
\<close>

theorem ungrouped_is_single_group:
  assumes "id_col self = None" and "\<not> paired self"
    and "(\<exists>xs. sel_data self = NotFrame xs) \<or> group_col self = None"
  shows "num_groups self = Inr 1 \<and>
         (\<exists>advice. recommend_method self is_normal h =
            Inr (if is_normal then ''One-sample T-test'' else ''One-sample Wilcoxon'', advice))"
proof -
  from assms(3) have n: "num_groups self = Inr 1"
    by (auto simp: num_groups_def split: pydata.splits)
  with assms(1,2) show ?thesis
    by (simp add: recommend_method_def)
qed

theorem ungrouped_is_single_group_witness:
  "id_col ungrouped_selector = None \<and> \<not> paired ungrouped_selector \<and>
   group_col ungrouped_selector = None \<and>
   map_of case_a_frame ''Group'' =
     Some [Str ''Control'', Str ''Control'', Str ''Treatment'', Str ''Treatment''] \<and>
   num_groups ungrouped_selector = Inr 1 \<and>
   (\<exists>advice. recommend_method ungrouped_selector True (Some False) =
      Inr (''One-sample T-test'', advice)) \<and>
   (\<exists>advice. recommend_method ungrouped_selector False None =
      Inr (''One-sample Wilcoxon'', advice))"
proof -
  have i: "id_col ungrouped_selector = None" and p: "\<not> paired ungrouped_selector"
    and g: "group_col ungrouped_selector = None"
    by (simp_all add: ungrouped_selector_def)
  have d: "(\<exists>xs. sel_data ungrouped_selector = NotFrame xs) \<or> group_col ungrouped_selector = None"
    using g by simp
  have c: "map_of case_a_frame ''Group'' =
     Some [Str ''Control'', Str ''Control'', Str ''Treatment'', Str ''Treatment'']"
    by (simp add: case_a_frame_def)
  from ungrouped_is_single_group [OF i p d, of True "Some False"]
       ungrouped_is_single_group [OF i p d, of False None] i p g c
  show ?thesis by simp
qed

text \<open>
  C3. The claim: \<open>recommend_method\<close> never raises on well-formed verdicts and every
  branch returns a rationale of its own. The single-group branch assigns the method and
  leaves the advice at its initial value: on a bare list the call returns the one-sample
  method together with the text \<open>No recommendation.\<close>
\<close>

theorem single_group_default_advice:
  "recommend_method list_selector True None =
     Inr (''One-sample T-test'', ''No recommendation.'') \<and>
   recommend_method list_selector False (Some True) =
     Inr (''One-sample Wilcoxon'', ''No recommendation.'')"
  by (simp add: recommend_method_def num_groups_def list_selector_def)

text \<open>
  What does hold of C3: the call raises only when the group column is looked up and the
  DataFrame does not have it; with the column present (or not needed) it returns, and
  the advice is the initial text exactly in the single-group branch.
\<close>

lemma recommend_method_raises_iff:
  "recommend_method self is_normal h = Inl e \<longleftrightarrow>
     id_col self = None \<and> \<not> paired self \<and> num_groups self = Inl e"
  by (auto simp: recommend_method_def Let_def split: sum.splits if_splits)

lemma recommend_method_returns:
  assumes "num_groups self = Inr n"
  shows "\<exists>method advice. recommend_method self is_normal h = Inr (method, advice)"
  using assms by (simp add: recommend_method_def Let_def)

lemma recommend_method_advice_default_iff:
  assumes "recommend_method self is_normal h = Inr (method, advice)"
  shows "advice = ''No recommendation.'' \<longleftrightarrow>
           id_col self = None \<and> \<not> paired self \<and> (\<exists>n. num_groups self = Inr n \<and> n < 2)"
  using assms
  by (auto simp: recommend_method_def Let_def split: sum.splits if_splits)

section \<open>The variance auditor\<close>

text \<open>
  C9. The claim: without a DataFrame, without a group column, or with fewer than 2
  distinct group labels, \<open>check_homogeneity\<close> returns the null verdict. Its guard counts
  the entries of \<open>unique()\<close>, and a missing label is one of them: on a group column
  with the one label A and missing entries, which \<open>nunique()\<close> and so
  \<open>recommend_method\<close> count as 1 group, Levene's test is run on the A rows and an empty
  sample, and the result is what the test gives, never the null verdict.
\<close>

theorem missing_label_counted_as_group:
  "nunique [Str ''A'', Num NaN, Str ''A'', Num NaN] = 1 \<and>
   num_groups missing_label_selector = Inr 1 \<and>
   unique [Str ''A'', Num NaN, Str ''A'', Num NaN] = [Str ''A'', Num NaN] \<and>
   check_homogeneity levene missing_label_selector ''RT'' =
     (case levene [[Num (Fin 1), Num (Fin 3)], []] of
        Inl e \<Rightarrow> Inl e
      | Inr (stat, p) \<Rightarrow>
          Inr \<lparr>Levene_p = Some p, Homogeneity = Some (pf_gt p literal_0_05)\<rparr>) \<and>
   check_homogeneity levene missing_label_selector ''RT'' \<noteq>
     Inr \<lparr>Levene_p = None, Homogeneity = None\<rparr> \<and>
   check_homogeneity levene_nan_on_empty missing_label_selector ''RT'' =
     Inr \<lparr>Levene_p = Some NaN, Homogeneity = Some False\<rparr>"
proof -
  have u: "unique [Str ''A'', Num NaN, Str ''A'', Num NaN] = [Str ''A'', Num NaN]"
    by (simp add: unique_def)
  have n: "nunique [Str ''A'', Num NaN, Str ''A'', Num NaN] = 1"
    by (simp add: nunique_def unique_def isna_def)
  have g: "num_groups missing_label_selector = Inr 1"
    by (simp add: num_groups_def missing_label_selector_def missing_label_frame_def
        getitem_def n)
  have c: "check_homogeneity lev missing_label_selector ''RT'' =
     (case lev [[Num (Fin 1), Num (Fin 3)], []] of
        Inl e \<Rightarrow> Inl e
      | Inr (stat, p) \<Rightarrow>
          Inr \<lparr>Levene_p = Some p, Homogeneity = Some (pf_gt p literal_0_05)\<rparr>)" for lev
    by (simp add: check_homogeneity_def missing_label_selector_def missing_label_frame_def
        getitem_def u dropna_cells_def rows_where_def cell_eq_def isna_def)
  have d: "check_homogeneity levene missing_label_selector ''RT'' \<noteq>
     Inr \<lparr>Levene_p = None, Homogeneity = None\<rparr>"
    unfolding c by (simp split: sum.splits prod.splits)
  have e: "check_homogeneity levene_nan_on_empty missing_label_selector ''RT'' =
     Inr \<lparr>Levene_p = Some NaN, Homogeneity = Some False\<rparr>"
    unfolding c by (simp add: levene_nan_on_empty_def pf_gt_def literal_0_05_def)
  from u n g c [of levene] d e show ?thesis
    by (intro conjI)
qed

text \<open>
  What does hold of C9: the null verdict is returned, and Levene's test not run, when
  the data is not a DataFrame, when no group column was supplied, and when the group
  column has fewer than 2 distinct entries, a missing label counted as an entry.
\<close>

lemma check_homogeneity_null:
  assumes "(\<exists>xs. sel_data self = NotFrame xs) \<or> group_col self = None \<or>
           (\<exists>df g gcol. sel_data self = DataFrame df \<and> group_col self = Some g \<and>
              getitem df g = Inr gcol \<and> length (unique gcol) < 2)"
  shows "check_homogeneity levene self value_col =
           Inr \<lparr>Levene_p = None, Homogeneity = None\<rparr>"
  using assms
  by (auto simp: check_homogeneity_def null_verdict_def Let_def split: pydata.splits option.splits)

lemma check_homogeneity_null_example:
  "sel_data list_selector = NotFrame [Fin 1, Fin 2, Fin 3] \<and>
   group_col ungrouped_selector = None \<and>
   sel_data one_group_selector = DataFrame one_group_frame \<and>
   group_col one_group_selector = Some ''Group'' \<and>
   getitem one_group_frame ''Group'' = Inr [Str ''Control'', Str ''Control''] \<and>
   length (unique [Str ''Control'', Str ''Control'']) < 2 \<and>
   check_homogeneity levene_raising list_selector ''RT'' =
     Inr \<lparr>Levene_p = None, Homogeneity = None\<rparr> \<and>
   check_homogeneity levene_raising ungrouped_selector ''RT'' =
     Inr \<lparr>Levene_p = None, Homogeneity = None\<rparr> \<and>
   check_homogeneity levene_raising one_group_selector ''RT'' =
     Inr \<lparr>Levene_p = None, Homogeneity = None\<rparr>"
proof -
  have a: "sel_data list_selector = NotFrame [Fin 1, Fin 2, Fin 3]"
    by (simp add: list_selector_def)
  have b: "group_col ungrouped_selector = None"
    by (simp add: ungrouped_selector_def)
  have c1: "sel_data one_group_selector = DataFrame one_group_frame"
    and c2: "group_col one_group_selector = Some ''Group''"
    by (simp_all add: one_group_selector_def)
  have c3: "getitem one_group_frame ''Group'' = Inr [Str ''Control'', Str ''Control'']"
    by (simp add: getitem_def one_group_frame_def)
  have c4: "length (unique [Str ''Control'', Str ''Control'']) < 2"
    by (simp add: unique_def)
  have ha: "(\<exists>xs. sel_data list_selector = NotFrame xs) \<or> group_col list_selector = None \<or>
           (\<exists>df g gcol. sel_data list_selector = DataFrame df \<and> group_col list_selector = Some g \<and>
              getitem df g = Inr gcol \<and> length (unique gcol) < 2)"
    using a by simp
  have hb: "(\<exists>xs. sel_data ungrouped_selector = NotFrame xs) \<or>
           group_col ungrouped_selector = None \<or>
           (\<exists>df g gcol. sel_data ungrouped_selector = DataFrame df \<and>
              group_col ungrouped_selector = Some g \<and>
              getitem df g = Inr gcol \<and> length (unique gcol) < 2)"
    using b by simp
  have hc: "(\<exists>xs. sel_data one_group_selector = NotFrame xs) \<or>
           group_col one_group_selector = None \<or>
           (\<exists>df g gcol. sel_data one_group_selector = DataFrame df \<and>
              group_col one_group_selector = Some g \<and>
              getitem df g = Inr gcol \<and> length (unique gcol) < 2)"
    using c1 c2 c3 c4 by blast
  from check_homogeneity_null [OF ha, of levene_raising "''RT''"]
       check_homogeneity_null [OF hb, of levene_raising "''RT''"]
       check_homogeneity_null [OF hc, of levene_raising "''RT''"]
       a b c1 c2 c3 c4
  show ?thesis by simp
qed

section \<open>The distribution profiler\<close>

text \<open>
  C5. The claim: for every sample the skewness is labelled Symmetric exactly on
  [-0.5, 0.5] and the kurtosis Mesokurtic exactly on [-1, 1], with Leptokurtic above and
  Platykurtic below. A sample of two entries has neither moment: both are NaN, every
  comparison with NaN is false, and the labels are the initial ones, Symmetric and
  Mesokurtic. And the kurtosis labels are never the bare words: each carries its gloss
  in parentheses.
\<close>

theorem nan_moments_default_labels:
  "series_skew (small_sample_library (Fin 0) (Fin 0) (Fin 0.5)) (entries (clean_data pair_eda)) = NaN \<and>
   series_kurtosis (small_sample_library (Fin 0) (Fin 0) (Fin 0.5)) (entries (clean_data pair_eda)) = NaN \<and>
   Skew_Desc (descriptive_stats (small_sample_library (Fin 0) (Fin 0) (Fin 0.5)) pair_eda) =
     ''Symmetric'' \<and>
   Kurt_Desc (descriptive_stats (small_sample_library (Fin 0) (Fin 0) (Fin 0.5)) pair_eda) =
     ''Mesokurtic (Normal-like)'' \<and>
   series_kurtosis (example_library (Fin 0) (Fin 0) (Fin 0.5)) (entries (clean_data spread_eda)) = Fin 0 \<and>
   Kurt_Desc (descriptive_stats (example_library (Fin 0) (Fin 0) (Fin 0.5)) spread_eda) \<noteq>
     ''Mesokurtic''"
  by (simp add: descriptive_stats_def Let_def small_sample_library_def example_library_def
      pair_eda_def spread_eda_def pf_gt_def)

text \<open>
  C5, amended. For every sample whose skewness is a real number, \<open>descriptive_stats\<close>
  labels it Symmetric exactly on [-0.5, 0.5], moderately positively skewed exactly on
  (0.5, 1], moderately negatively skewed exactly on [-1, -0.5), and highly skewed
  exactly above 1 and below -1; for every sample whose excess kurtosis is a real number
  it labels it \<open>Mesokurtic (Normal-like)\<close> exactly on [-1, 1],
  \<open>Leptokurtic (Heavy tails/Peaked)\<close> exactly above 1 and
  \<open>Platykurtic (Light tails/Flat)\<close> exactly below -1. Each real value has one label.
\<close>

theorem moment_labels_partition:
  "(\<forall>s. series_skew L (entries (clean_data self)) = Fin s \<longrightarrow>
      (Skew_Desc (descriptive_stats L self) = ''Symmetric'' \<longleftrightarrow> - 0.5 \<le> s \<and> s \<le> 0.5) \<and>
      (Skew_Desc (descriptive_stats L self) = ''Moderately Positively Skewed'' \<longleftrightarrow>
         0.5 < s \<and> s \<le> 1) \<and>
      (Skew_Desc (descriptive_stats L self) = ''Moderately Negatively Skewed'' \<longleftrightarrow>
         - 1 \<le> s \<and> s < - 0.5) \<and>
      (Skew_Desc (descriptive_stats L self) = ''Highly Positively Skewed'' \<longleftrightarrow> 1 < s) \<and>
      (Skew_Desc (descriptive_stats L self) = ''Highly Negatively Skewed'' \<longleftrightarrow> s < - 1)) \<and>
   (\<forall>k. series_kurtosis L (entries (clean_data self)) = Fin k \<longrightarrow>
      (Kurt_Desc (descriptive_stats L self) = ''Mesokurtic (Normal-like)'' \<longleftrightarrow>
         - 1 \<le> k \<and> k \<le> 1) \<and>
      (Kurt_Desc (descriptive_stats L self) = ''Leptokurtic (Heavy tails/Peaked)'' \<longleftrightarrow>
         1 < k) \<and>
      (Kurt_Desc (descriptive_stats L self) = ''Platykurtic (Light tails/Flat)'' \<longleftrightarrow>
         k < - 1))"
proof (intro conjI allI impI)
  fix s
  assume "series_skew L (entries (clean_data self)) = Fin s"
  then have sk: "Skew_Desc (descriptive_stats L self) =
      (if 1 < s then ''Highly Positively Skewed''
       else if 0.5 < s then ''Moderately Positively Skewed''
       else if s < - 1 then ''Highly Negatively Skewed''
       else if s < - 0.5 then ''Moderately Negatively Skewed''
       else ''Symmetric'')"
    by (simp add: descriptive_stats_def Let_def pf_gt_def)
  show "Skew_Desc (descriptive_stats L self) = ''Symmetric'' \<longleftrightarrow> - 0.5 \<le> s \<and> s \<le> 0.5"
    unfolding sk by auto
  show "Skew_Desc (descriptive_stats L self) = ''Moderately Positively Skewed'' \<longleftrightarrow>
      0.5 < s \<and> s \<le> 1"
    unfolding sk by auto
  show "Skew_Desc (descriptive_stats L self) = ''Moderately Negatively Skewed'' \<longleftrightarrow>
      - 1 \<le> s \<and> s < - 0.5"
    unfolding sk by auto
  show "Skew_Desc (descriptive_stats L self) = ''Highly Positively Skewed'' \<longleftrightarrow> 1 < s"
    unfolding sk by auto
  show "Skew_Desc (descriptive_stats L self) = ''Highly Negatively Skewed'' \<longleftrightarrow> s < - 1"
    unfolding sk by auto
next
  fix k
  assume "series_kurtosis L (entries (clean_data self)) = Fin k"
  then have ku: "Kurt_Desc (descriptive_stats L self) =
      (if 1 < k then ''Leptokurtic (Heavy tails/Peaked)''
       else if k < - 1 then ''Platykurtic (Light tails/Flat)''
       else ''Mesokurtic (Normal-like)'')"
    by (simp add: descriptive_stats_def Let_def pf_gt_def)
  show "Kurt_Desc (descriptive_stats L self) = ''Mesokurtic (Normal-like)'' \<longleftrightarrow>
      - 1 \<le> k \<and> k \<le> 1"
    unfolding ku by auto
  show "Kurt_Desc (descriptive_stats L self) = ''Leptokurtic (Heavy tails/Peaked)'' \<longleftrightarrow> 1 < k"
    unfolding ku by auto
  show "Kurt_Desc (descriptive_stats L self) = ''Platykurtic (Light tails/Flat)'' \<longleftrightarrow> k < - 1"
    unfolding ku by auto
qed

theorem moment_labels_partition_witness:
  "series_skew (example_library (Fin 0.5) (Fin 1) (Fin 0.5)) (entries (clean_data spread_eda)) = Fin 0.5 \<and>
   series_kurtosis (example_library (Fin 0.5) (Fin 1) (Fin 0.5)) (entries (clean_data spread_eda)) = Fin 1 \<and>
   Skew_Desc (descriptive_stats (example_library (Fin 0.5) (Fin 1) (Fin 0.5)) spread_eda) = ''Symmetric'' \<and>
   Kurt_Desc (descriptive_stats (example_library (Fin 0.5) (Fin 1) (Fin 0.5)) spread_eda) =
     ''Mesokurtic (Normal-like)'' \<and>
   series_skew (small_sample_library (Fin (- 1)) (Fin (- 1.2)) (Fin 0.5))
     (entries (clean_data spread_eda)) = Fin (- 1) \<and>
   series_kurtosis (small_sample_library (Fin (- 1)) (Fin (- 1.2)) (Fin 0.5))
     (entries (clean_data spread_eda)) = NaN \<and>
   Skew_Desc (descriptive_stats (small_sample_library (Fin (- 1)) (Fin (- 1.2)) (Fin 0.5)) spread_eda) =
     ''Moderately Negatively Skewed'' \<and>
   series_kurtosis (example_library (Fin (- 1)) (Fin (- 1.2)) (Fin 0.5))
     (entries (clean_data spread_eda)) = Fin (- 1.2) \<and>
   Kurt_Desc (descriptive_stats (example_library (Fin (- 1)) (Fin (- 1.2)) (Fin 0.5)) spread_eda) =
     ''Platykurtic (Light tails/Flat)''"
proof -
  have a: "series_skew (example_library (Fin 0.5) (Fin 1) (Fin 0.5)) (entries (clean_data spread_eda)) = Fin 0.5"
    and b: "series_kurtosis (example_library (Fin 0.5) (Fin 1) (Fin 0.5)) (entries (clean_data spread_eda)) = Fin 1"
    and d: "series_kurtosis (example_library (Fin (- 1)) (Fin (- 1.2)) (Fin 0.5)) (entries (clean_data spread_eda)) = Fin (- 1.2)"
    by (simp_all add: example_library_def)
  have c: "series_skew (small_sample_library (Fin (- 1)) (Fin (- 1.2)) (Fin 0.5))
     (entries (clean_data spread_eda)) = Fin (- 1)"
    and n: "series_kurtosis (small_sample_library (Fin (- 1)) (Fin (- 1.2)) (Fin 0.5))
     (entries (clean_data spread_eda)) = NaN"
    by (simp_all add: small_sample_library_def spread_eda_def)
  note t1 = moment_labels_partition [of "example_library (Fin 0.5) (Fin 1) (Fin 0.5)" spread_eda]
  note t2 = moment_labels_partition
      [of "small_sample_library (Fin (- 1)) (Fin (- 1.2)) (Fin 0.5)" spread_eda]
  note t3 = moment_labels_partition
      [of "example_library (Fin (- 1)) (Fin (- 1.2)) (Fin 0.5)" spread_eda]
  from t1 a have "Skew_Desc (descriptive_stats (example_library (Fin 0.5) (Fin 1) (Fin 0.5)) spread_eda) =
      ''Symmetric'' \<longleftrightarrow> - 0.5 \<le> (0.5::real) \<and> (0.5::real) \<le> 0.5"
    by blast
  then have r1: "Skew_Desc (descriptive_stats (example_library (Fin 0.5) (Fin 1) (Fin 0.5)) spread_eda) =
      ''Symmetric''"
    by simp
  from t1 b have "Kurt_Desc (descriptive_stats (example_library (Fin 0.5) (Fin 1) (Fin 0.5)) spread_eda) =
      ''Mesokurtic (Normal-like)'' \<longleftrightarrow> - 1 \<le> (1::real) \<and> (1::real) \<le> 1"
    by blast
  then have r2: "Kurt_Desc (descriptive_stats (example_library (Fin 0.5) (Fin 1) (Fin 0.5)) spread_eda) =
      ''Mesokurtic (Normal-like)''"
    by simp
  from t2 c have "Skew_Desc (descriptive_stats
        (small_sample_library (Fin (- 1)) (Fin (- 1.2)) (Fin 0.5)) spread_eda) =
      ''Moderately Negatively Skewed'' \<longleftrightarrow> - 1 \<le> (- 1::real) \<and> (- 1::real) < - 0.5"
    by blast
  then have r3: "Skew_Desc (descriptive_stats
        (small_sample_library (Fin (- 1)) (Fin (- 1.2)) (Fin 0.5)) spread_eda) =
      ''Moderately Negatively Skewed''"
    by simp
  from t3 d have "Kurt_Desc (descriptive_stats
        (example_library (Fin (- 1)) (Fin (- 1.2)) (Fin 0.5)) spread_eda) =
      ''Platykurtic (Light tails/Flat)'' \<longleftrightarrow> (- 1.2::real) < - 1"
    by blast
  then have r4: "Kurt_Desc (descriptive_stats
        (example_library (Fin (- 1)) (Fin (- 1.2)) (Fin 0.5)) spread_eda) =
      ''Platykurtic (Light tails/Flat)''"
    by simp
  from a b r1 r2 c n r3 d r4 show ?thesis
    by (intro conjI)
qed

text \<open>The labels of a moment that is not a real number.\<close>

lemma moment_labels_not_real:
  "(series_skew L (entries (clean_data self)) = NaN \<longrightarrow>
      Skew_Desc (descriptive_stats L self) = ''Symmetric'') \<and>
   (series_skew L (entries (clean_data self)) = PInf \<longrightarrow>
      Skew_Desc (descriptive_stats L self) = ''Highly Positively Skewed'') \<and>
   (series_skew L (entries (clean_data self)) = NInf \<longrightarrow>
      Skew_Desc (descriptive_stats L self) = ''Highly Negatively Skewed'') \<and>
   (series_kurtosis L (entries (clean_data self)) = NaN \<longrightarrow>
      Kurt_Desc (descriptive_stats L self) = ''Mesokurtic (Normal-like)'') \<and>
   (series_kurtosis L (entries (clean_data self)) = PInf \<longrightarrow>
      Kurt_Desc (descriptive_stats L self) = ''Leptokurtic (Heavy tails/Peaked)'') \<and>
   (series_kurtosis L (entries (clean_data self)) = NInf \<longrightarrow>
      Kurt_Desc (descriptive_stats L self) = ''Platykurtic (Light tails/Flat)'')"
  by (simp add: descriptive_stats_def Let_def pf_gt_def)

text \<open>
  C6. Whenever the three normality tests and the density estimator return,
  \<open>check_distribution\<close> returns a report whose \<open>Is_Normal_Assumption\<close> is
  \<open>shapiro_p > 0.05\<close>, whatever the p-values of the Lilliefors and the Jarque-Bera
  tests are; those two are only copied into the report.
\<close>

theorem is_normal_from_shapiro_only:
  assumes "shapiro L (entries (clean_data self)) = Inr (w, p)"
    and "lilliefors L (entries (clean_data self)) = Inr (d, p_ks)"
    and "jarque_bera L (entries (clean_data self)) = Inr (jb, p_jb)"
    and "gaussian_kde L (entries (clean_data self)) = Inr kde"
  shows "\<exists>r ws. check_distribution L self = Inr (r, ws) \<and>
           Shapiro_Wilk_p r = p \<and> Lilliefors_p r = p_ks \<and> Jarque_Bera_p r = p_jb \<and>
           Is_Normal_Assumption r = pf_gt p literal_0_05"
  using assms by (simp add: check_distribution_def check_multimodality_def Let_def)

theorem is_normal_from_shapiro_only_witness:
  "shapiro (example_library (Fin 0.7) (Fin 0) (Fin 0.01)) (entries (clean_data spread_eda)) =
     Inr (Fin 0.9, Fin 0.01) \<and>
   lilliefors (example_library (Fin 0.7) (Fin 0) (Fin 0.01)) (entries (clean_data spread_eda)) =
     Inr (Fin 0.1, Fin 0.3) \<and>
   jarque_bera (example_library (Fin 0.7) (Fin 0) (Fin 0.01)) (entries (clean_data spread_eda)) =
     Inr (Fin 1.5, Fin 0.4) \<and>
   gaussian_kde (example_library (Fin 0.7) (Fin 0) (Fin 0.01)) (entries (clean_data spread_eda)) =
     Inr (map (\<lambda>x. Fin 1)) \<and>
   (\<exists>r ws. check_distribution (example_library (Fin 0.7) (Fin 0) (Fin 0.01)) spread_eda = Inr (r, ws) \<and>
      Lilliefors_p r = Fin 0.3 \<and> Jarque_Bera_p r = Fin 0.4 \<and> \<not> Is_Normal_Assumption r)"
proof -
  have a: "shapiro (example_library (Fin 0.7) (Fin 0) (Fin 0.01)) (entries (clean_data spread_eda)) =
     Inr (Fin 0.9, Fin 0.01)"
    and b: "lilliefors (example_library (Fin 0.7) (Fin 0) (Fin 0.01)) (entries (clean_data spread_eda)) =
     Inr (Fin 0.1, Fin 0.3)"
    and c: "jarque_bera (example_library (Fin 0.7) (Fin 0) (Fin 0.01)) (entries (clean_data spread_eda)) =
     Inr (Fin 1.5, Fin 0.4)"
    by (simp_all add: example_library_def)
  have d: "gaussian_kde (example_library (Fin 0.7) (Fin 0) (Fin 0.01)) (entries (clean_data spread_eda)) =
     Inr (map (\<lambda>x. Fin 1))"
    by (simp add: example_library_def example_kde_def spread_eda_def)
  have e: "\<not> pf_gt (Fin 0.01) literal_0_05"
    by (simp add: pf_gt_def literal_0_05_def)
  from is_normal_from_shapiro_only [OF a b c d] a b c d e
  show ?thesis by auto
qed

text \<open>
  C7. The claim: on a degenerate clean sample \<open>check_multimodality\<close> fails with a
  DegenerateSample error instead of the estimator's exception. The code has no such
  error and no guard: on a constant sample, with an estimator that refuses it as scipy's
  does, the caller gets the estimator's LinAlgError.
\<close>

theorem constant_sample_kde_error:
  "entries (clean_data constant_eda) = [Fin 5, Fin 5, Fin 5] \<and>
   degenerate [Fin 5, Fin 5, Fin 5] \<and>
   check_multimodality (example_library (Fin 0) (Fin 0) (Fin 0.5)) constant_eda =
     Inl (Exception ''LinAlgError'' ''The data appears to lie in a lower-dimensional subspace.'') \<and>
   exn_class (Exception ''LinAlgError'' ''The data appears to lie in a lower-dimensional subspace.'')
     \<noteq> ''DegenerateSample''"
  by (simp add: check_multimodality_def example_library_def example_kde_def constant_eda_def
      degenerate_def)

text \<open>
  C7, amended. \<open>check_multimodality\<close> hands the clean sample, degenerate or not, to the
  density estimator; it fails exactly when the estimator raises, and with the
  estimator's own exception.
\<close>

theorem check_multimodality_raises_iff:
  "check_multimodality L self = Inl e \<longleftrightarrow> gaussian_kde L (entries (clean_data self)) = Inl e"
  by (simp add: check_multimodality_def Let_def split: sum.splits)

text \<open>
  C8. The claim: the clean sample is the input without its non-finite entries, NaN and
  the infinities. \<open>dropna\<close> removes NaN only: both infinities of the input below are
  still in the clean sample.
\<close>

theorem clean_data_keeps_infinities:
  "EDA_Diagnosis_init (PyList [Fin 1, PInf, NaN, NInf, Fin 2]) = Inr infinite_eda \<and>
   entries (clean_data infinite_eda) = [Fin 1, PInf, NInf, Fin 2] \<and>
   filter isfinite [Fin 1, PInf, NaN, NInf, Fin 2] = [Fin 1, Fin 2]"
  by (simp add: EDA_Diagnosis_init_def infinite_eda_def dropna_def)

text \<open>Each profiler operation reads the clean sample and nothing else of the object.\<close>

lemma descriptive_stats_reads_clean_data:
  "clean_data a = clean_data b \<Longrightarrow> descriptive_stats L a = descriptive_stats L b"
  by (simp only: descriptive_stats_def)

lemma check_outliers_reads_clean_data:
  "clean_data a = clean_data b \<Longrightarrow> check_outliers L a m t = check_outliers L b m t"
  by (simp only: check_outliers_def)

lemma check_multimodality_reads_clean_data:
  "clean_data a = clean_data b \<Longrightarrow> check_multimodality L a = check_multimodality L b"
  by (simp only: check_multimodality_def)

lemma check_distribution_reads_clean_data:
  "clean_data a = clean_data b \<Longrightarrow> check_distribution L a = check_distribution L b"
  by (simp only: check_distribution_def check_multimodality_reads_clean_data [of a b])

text \<open>
  C8, amended. For every Series, array or list the constructor returns an object whose
  clean sample is the input without its NaN entries, the other entries (the infinities
  among them) in their order; and \<open>descriptive_stats\<close>, \<open>check_outliers\<close>,
  \<open>check_multimodality\<close> and \<open>check_distribution\<close> give the same result on any two
  objects with the same clean sample, whatever their raw data is.
\<close>

theorem clean_data_is_dropna:
  assumes "d \<noteq> OtherObject"
  shows "\<exists>self. EDA_Diagnosis_init d = Inr self \<and>
           entries (data self) = input_entries d \<and>
           entries (clean_data self) = filter (\<lambda>x. x \<noteq> NaN) (input_entries d) \<and>
           (\<forall>other. clean_data other = clean_data self \<longrightarrow>
              descriptive_stats L other = descriptive_stats L self \<and>
              check_outliers L other method threshold =
                check_outliers L self method threshold \<and>
              check_multimodality L other = check_multimodality L self \<and>
              check_distribution L other = check_distribution L self)"
proof -
  from assms obtain self where i: "EDA_Diagnosis_init d = Inr self"
    by (cases d) (simp_all add: EDA_Diagnosis_init_def Let_def)
  then have "entries (data self) = input_entries d"
    and "entries (clean_data self) = filter (\<lambda>x. x \<noteq> NaN) (input_entries d)"
    by (auto simp: EDA_Diagnosis_init_def dropna_def Let_def split: pyobject.splits)
  with i show ?thesis
    using descriptive_stats_reads_clean_data [of _ self L]
      check_outliers_reads_clean_data [of _ self L "method" "threshold"]
      check_multimodality_reads_clean_data [of _ self L]
      check_distribution_reads_clean_data [of _ self L]
    by blast
qed

theorem clean_data_is_dropna_witness:
  "PyList [Fin 1, NaN, Fin 2, Fin 3] \<noteq> OtherObject \<and>
   EDA_Diagnosis_init (PyList [Fin 1, NaN, Fin 2, Fin 3]) = Inr spread_eda \<and>
   entries (clean_data spread_eda) = [Fin 1, Fin 2, Fin 3] \<and>
   clean_data spread_eda_other = clean_data spread_eda \<and>
   data spread_eda_other \<noteq> data spread_eda \<and>
   check_distribution (example_library (Fin 0.7) (Fin (- 1.2)) (Fin 0.01)) spread_eda_other =
     check_distribution (example_library (Fin 0.7) (Fin (- 1.2)) (Fin 0.01)) spread_eda \<and>
   check_outliers (example_library (Fin 0.7) (Fin (- 1.2)) (Fin 0.01)) spread_eda_other
       ''iqr'' (Fin 1.5) =
     check_outliers (example_library (Fin 0.7) (Fin (- 1.2)) (Fin 0.01)) spread_eda
       ''iqr'' (Fin 1.5)"
proof -
  have n: "PyList [Fin 1, NaN, Fin 2, Fin 3] \<noteq> OtherObject"
    by simp
  have i: "EDA_Diagnosis_init (PyList [Fin 1, NaN, Fin 2, Fin 3]) = Inr spread_eda"
    by (simp add: EDA_Diagnosis_init_def spread_eda_def dropna_def)
  have c: "clean_data spread_eda_other = clean_data spread_eda"
    and d: "data spread_eda_other \<noteq> data spread_eda"
    by (simp_all add: spread_eda_other_def spread_eda_def)
  from clean_data_is_dropna [OF n,
      of "example_library (Fin 0.7) (Fin (- 1.2)) (Fin 0.01)" "''iqr''" "Fin 1.5"]
  obtain self where s: "EDA_Diagnosis_init (PyList [Fin 1, NaN, Fin 2, Fin 3]) = Inr self"
    and f: "entries (clean_data self) =
      filter (\<lambda>x. x \<noteq> NaN) (input_entries (PyList [Fin 1, NaN, Fin 2, Fin 3]))"
    and o: "\<forall>other. clean_data other = clean_data self \<longrightarrow>
      descriptive_stats (example_library (Fin 0.7) (Fin (- 1.2)) (Fin 0.01)) other =
        descriptive_stats (example_library (Fin 0.7) (Fin (- 1.2)) (Fin 0.01)) self \<and>
      check_outliers (example_library (Fin 0.7) (Fin (- 1.2)) (Fin 0.01)) other ''iqr'' (Fin 1.5) =
        check_outliers (example_library (Fin 0.7) (Fin (- 1.2)) (Fin 0.01)) self ''iqr'' (Fin 1.5) \<and>
      check_multimodality (example_library (Fin 0.7) (Fin (- 1.2)) (Fin 0.01)) other =
        check_multimodality (example_library (Fin 0.7) (Fin (- 1.2)) (Fin 0.01)) self \<and>
      check_distribution (example_library (Fin 0.7) (Fin (- 1.2)) (Fin 0.01)) other =
        check_distribution (example_library (Fin 0.7) (Fin (- 1.2)) (Fin 0.01)) self"
    by blast
  from s i have eq: "self = spread_eda"
    by simp
  from f eq have e: "entries (clean_data spread_eda) = [Fin 1, Fin 2, Fin 3]"
    by simp
  from o eq c n i d e show ?thesis
    by blast
qed

end
